theory Spec2Isabelle
  imports Complex_Main
begin

section \<open>Data model of the query engine (src/src/query_engine.py)\<close>

text \<open>
  A Python \<open>str\<close> is a sequence of Unicode code points and \<open>len\<close> counts code points,
  so a string is a list of code points here. \<open>u\<close> reads an ASCII literal.
  Python floats are idealised as reals.
\<close>

type_synonym ustr = "nat list"

definition u :: "string \<Rightarrow> ustr" where
  "u s = map of_char s"

text \<open>An exception object (a subclass of \<open>Exception\<close>) with the text \<open>str(e)\<close> gives.\<close>

datatype py_exception = PyException (message: ustr)

text \<open>
  The \<open>score\<close> attribute of a source node: the attribute may be missing
  (\<open>hasattr(node, 'score')\<close> is false), hold \<open>None\<close>, or hold a float.
\<close>

datatype score_attr = NoScoreAttr | ScoreNone | ScoreNum real

record node =
  node_score :: score_attr
  node_text :: ustr
  node_metadata :: "ustr \<rightharpoonup> ustr"

text \<open>The collaborator's \<open>Response\<close>: the answer text and the ranked source nodes.\<close>

record response =
  response_text :: ustr
  source_nodes :: "node list"

record source_info =
  src_index :: nat
  src_score :: "real option"
  src_filename :: ustr
  src_title :: ustr
  src_author :: ustr
  src_text_snippet :: ustr

text \<open>The result dict: the two shapes \<open>process_query\<close> builds.\<close>

datatype query_result =
  Success (answer: ustr) (confidence: real) (sources: "source_info list")
          (language: ustr) (query: ustr) (timestamp: ustr)
| Failure (error: ustr)

text \<open>\<open>q.get("success", False)\<close>, \<open>q.get("language", "unknown")\<close>, \<open>q.get("confidence", 0)\<close>.\<close>

fun get_success :: "query_result \<Rightarrow> bool" where
  "get_success (Success a c s l q ts) = True"
| "get_success (Failure e) = False"

fun get_language :: "query_result \<Rightarrow> ustr" where
  "get_language (Success a c s l q ts) = l"
| "get_language (Failure e) = u ''unknown''"

fun get_confidence :: "query_result \<Rightarrow> real" where
  "get_confidence (Success a c s l q ts) = c"
| "get_confidence (Failure e) = 0"

subsection \<open>The collaborators (src/src/vector_store.py and the libraries behind it)\<close>

text \<open>The object \<open>index.as_query_engine(...)\<close> returns: its \<open>query\<close> method.\<close>

type_synonym llama_query_engine = "ustr \<Rightarrow> py_exception + response"

datatype filter_operator = EQ
datatype filter_condition = AND

record metadata_filter =
  mf_key :: ustr
  mf_value :: ustr
  mf_operator :: filter_operator

record metadata_filters =
  mf_filters :: "metadata_filter list"
  mf_condition :: filter_condition

record vector_store_index =
  as_query_engine :: "int \<Rightarrow> metadata_filters option \<Rightarrow> py_exception + llama_query_engine"

record vector_store_manager =
  index :: "vector_store_index option"

text \<open>Every call that reaches the retrieval and generation collaborator, in order.\<close>

datatype collaborator_call =
  AsQueryEngine int "metadata_filters option"
| Query ustr

fun is_query_call :: "collaborator_call \<Rightarrow> bool" where
  "is_query_call (Query q) = True"
| "is_query_call (AsQueryEngine k f) = False"

text \<open>
  \<open>VectorStoreManager.get_query_engine\<close>: \<open>None\<close> without an index; otherwise the dict of
  filters becomes equality filters joined by AND and the index builds the engine. Nothing
  here catches what \<open>as_query_engine\<close> raises.
\<close>

definition get_query_engine ::
  "vector_store_manager \<Rightarrow> int \<Rightarrow> (ustr \<times> ustr) list option
     \<Rightarrow> (py_exception + llama_query_engine option) \<times> collaborator_call list" where
  "get_query_engine m similarity_top_k filters =
     (case index m of
        None \<Rightarrow> (Inr None, [])
      | Some idx \<Rightarrow>
          (let metadata_filters =
                 (case filters of
                    None \<Rightarrow> None
                  | Some fs \<Rightarrow>
                      if fs = [] then None
                      else Some \<lparr>mf_filters =
                                   map (\<lambda>(k, v). \<lparr>mf_key = k, mf_value = v, mf_operator = EQ\<rparr>) fs,
                                 mf_condition = AND\<rparr>)
           in (case as_query_engine idx similarity_top_k metadata_filters of
                 Inl e \<Rightarrow> Inl e
               | Inr qe \<Rightarrow> Inr (Some qe),
               [AsQueryEngine similarity_top_k metadata_filters])))"

text \<open>
  What the engine reads from outside: \<open>langdetect.detect\<close> and the clock
  (\<open>datetime.now().isoformat()\<close>).
\<close>

record environment =
  detect :: "ustr \<Rightarrow> py_exception + ustr"
  now_isoformat :: ustr

record query_engine =
  the_vector_store_manager :: vector_store_manager
  query_history :: "query_result list"

section \<open>The operations of QueryEngine\<close>

definition init_query_engine :: "vector_store_manager \<Rightarrow> query_engine" where
  "init_query_engine m = \<lparr>the_vector_store_manager = m, query_history = []\<rparr>"

definition detect_query_language :: "environment \<Rightarrow> ustr \<Rightarrow> ustr" where
  "detect_query_language env q = (case detect env q of Inl e \<Rightarrow> u ''en'' | Inr l \<Rightarrow> l)"

definition prompt_ru :: ustr where
  "prompt_ru =
     [1058, 1099, 32, 1087, 1086, 1084, 1086, 1097, 1085, 1080, 1082, 32, 1076, 1083, 1103, 32,
      1086, 1090, 1074, 1077, 1090, 1086, 1074, 32, 1085, 1072, 32, 1074, 1086, 1087, 1088, 1086,
      1089, 1099, 32, 1085, 1072, 32, 1086, 1089, 1085, 1086, 1074, 1077, 32, 1087, 1088, 1077,
      1076, 1086, 1089, 1090, 1072, 1074, 1083, 1077, 1085, 1085, 1099, 1093, 32, 1076, 1086,
      1082, 1091, 1084, 1077, 1085, 1090, 1086, 1074, 46, 10]
     @ u ''            '' @ [10]
     @ [1048, 1085, 1089, 1090, 1088, 1091, 1082, 1094, 1080, 1080, 58, 10]
     @ [49, 46, 32, 1054, 1090, 1074, 1077, 1095, 1072, 1081, 32, 1085, 1072, 32, 1088, 1091,
        1089, 1089, 1082, 1086, 1084, 32, 1103, 1079, 1099, 1082, 1077, 10]
     @ [50, 46, 32, 1048, 1089, 1087, 1086, 1083, 1100, 1079, 1091, 1081, 32, 1090, 1086, 1083,
        1100, 1082, 1086, 32, 1080, 1085, 1092, 1086, 1088, 1084, 1072, 1094, 1080, 1102, 32,
        1080, 1079, 32, 1087, 1088, 1077, 1076, 1086, 1089, 1090, 1072, 1074, 1083, 1077, 1085,
        1085, 1099, 1093, 32, 1076, 1086, 1082, 1091, 1084, 1077, 1085, 1090, 1086, 1074, 10]
     @ [51, 46, 32, 1045, 1089, 1083, 1080, 32, 1080, 1085, 1092, 1086, 1088, 1084, 1072, 1094,
        1080, 1080, 32, 1085, 1077, 1076, 1086, 1089, 1090, 1072, 1090, 1086, 1095, 1085, 1086,
        44, 32, 1090, 1072, 1082, 32, 1080, 32, 1089, 1082, 1072, 1078, 1080, 10]
     @ [52, 46, 32, 1059, 1082, 1072, 1079, 1099, 1074, 1072, 1081, 32, 1080, 1089, 1090, 1086,
        1095, 1085, 1080, 1082, 1080, 32, 1089, 1074, 1086, 1080, 1093, 32, 1086, 1090, 1074,
        1077, 1090, 1086, 1074, 10]
     @ [53, 46, 32, 1041, 1091, 1076, 1100, 32, 1082, 1086, 1085, 1082, 1088, 1077, 1090, 1085,
        1099, 1084, 32, 1080, 32, 1090, 1086, 1095, 1085, 1099, 1084]"

definition prompt_en :: ustr where
  "prompt_en =
     u ''You are an assistant for answering questions based on provided documents.'' @ [10]
     @ u ''            '' @ [10]
     @ u ''Instructions:'' @ [10]
     @ u ''1. Answer in English'' @ [10]
     @ u ''2. Use only information from the provided documents'' @ [10]
     @ u ''3. If information is insufficient, say so'' @ [10]
     @ u ''4. Cite your sources'' @ [10]
     @ u ''5. Be specific and accurate''"

text \<open>\<open>prompts.get(language, prompts["en"])\<close> over the two keys "ru" and "en".\<close>

definition get_language_prompt :: "ustr \<Rightarrow> ustr" where
  "get_language_prompt lang =
     (if lang = u ''ru'' then prompt_ru
      else if lang = u ''en'' then prompt_en
      else prompt_en)"

text \<open>
  The scores the confidence is averaged over:
  \<open>[node.score for node in nodes if hasattr(node, 'score') and node.score]\<close>.
  The test is truthiness, so \<open>None\<close> and \<open>0.0\<close> are both left out.
\<close>

fun truthy_scores :: "node list \<Rightarrow> real list" where
  "truthy_scores [] = []"
| "truthy_scores (n # ns) =
     (case node_score n of
        NoScoreAttr \<Rightarrow> truthy_scores ns
      | ScoreNone \<Rightarrow> truthy_scores ns
      | ScoreNum s \<Rightarrow> (if s \<noteq> 0 then s # truthy_scores ns else truthy_scores ns))"

definition calculate_confidence_score :: "response \<Rightarrow> real" where
  "calculate_confidence_score r =
     (if source_nodes r = [] then 0
      else
        let scores = truthy_scores (source_nodes r) in
        if scores = [] then 0.5
        else
          let avg_score = sum_list scores / real (length scores);
              confidence = min 100 (max 0 (avg_score * 100));
              confidence = (if length (response_text r) < 50 then confidence * 0.8
                            else confidence);
              confidence = (if length (source_nodes r) \<ge> 3 then confidence * 1.1
                            else confidence)
          in min 100 confidence)"

text \<open>\<open>getattr(node, 'score', 0.0)\<close>: the attribute as it is when present, \<open>None\<close> included.\<close>

fun getattr_score :: "score_attr \<Rightarrow> real option" where
  "getattr_score NoScoreAttr = Some 0"
| "getattr_score ScoreNone = None"
| "getattr_score (ScoreNum s) = Some s"

definition metadata_get :: "node \<Rightarrow> ustr \<Rightarrow> ustr" where
  "metadata_get n k = (case node_metadata n k of None \<Rightarrow> u ''Unknown'' | Some v \<Rightarrow> v)"

text \<open>The loop over \<open>enumerate(source_nodes)\<close>, \<open>i\<close> being the running position.\<close>

fun format_sources_from :: "nat \<Rightarrow> node list \<Rightarrow> source_info list" where
  "format_sources_from i [] = []"
| "format_sources_from i (n # ns) =
     \<lparr>src_index = i + 1,
      src_score = getattr_score (node_score n),
      src_filename = metadata_get n (u ''filename''),
      src_title = metadata_get n (u ''title''),
      src_author = metadata_get n (u ''author''),
      src_text_snippet = (if length (node_text n) > 200 then take 200 (node_text n) @ u ''...''
                          else node_text n)\<rparr>
     # format_sources_from (i + 1) ns"

definition format_sources :: "node list \<Rightarrow> source_info list" where
  "format_sources ns = format_sources_from 0 ns"

text \<open>
  The threshold filter inside \<open>process_query\<close>:
  \<open>[node for node in response.source_nodes
     if hasattr(node, 'score') and node.score >= similarity_threshold]\<close>.
  A node without the attribute is skipped; comparing \<open>None\<close> with a float raises TypeError,
  which ends the comprehension.
\<close>

definition type_error_message :: ustr where
  "type_error_message =
     [39] @ u ''>='' @ [39] @ u '' not supported between instances of ''
     @ [39] @ u ''NoneType'' @ [39] @ u '' and '' @ [39] @ u ''float'' @ [39]"

fun filter_sources :: "node list \<Rightarrow> real \<Rightarrow> py_exception + node list" where
  "filter_sources [] t = Inr []"
| "filter_sources (n # ns) t =
     (case node_score n of
        NoScoreAttr \<Rightarrow> filter_sources ns t
      | ScoreNone \<Rightarrow> Inl (PyException type_error_message)
      | ScoreNum s \<Rightarrow>
          (case filter_sources ns t of
             Inl e \<Rightarrow> Inl e
           | Inr kept \<Rightarrow> Inr (if s \<ge> t then n # kept else kept)))"

definition no_results_ru :: ustr where
  "no_results_ru =
     [1053, 1077, 32, 1085, 1072, 1081, 1076, 1077, 1085, 1086, 32, 1088, 1077, 1083, 1077, 1074,
      1072, 1085, 1090, 1085, 1099, 1093, 32, 1076, 1086, 1082, 1091, 1084, 1077, 1085, 1090,
      1086, 1074, 32, 1076, 1083, 1103, 32, 1086, 1090, 1074, 1077, 1090, 1072, 32, 1085, 1072,
      32, 1074, 1072, 1096, 32, 1074, 1086, 1087, 1088, 1086, 1089, 46]"

definition no_results_en :: ustr where
  "no_results_en = u ''No relevant documents found to answer your question.''"

definition not_available_message :: ustr where
  "not_available_message = u ''Query engine not available. Please upload documents first.''"

definition error_processing :: "py_exception \<Rightarrow> query_result" where
  "error_processing e = Failure (u ''Error processing query: '' @ message e)"

text \<open>
  What one call of \<open>process_query\<close> leaves behind: the value returned (\<open>Inr\<close>) or the
  exception that leaves the method (\<open>Inl\<close>), the engine with its history, and the calls
  made to the collaborator.
\<close>

record process_outcome =
  returned :: "py_exception + query_result"
  engine :: query_engine
  calls :: "collaborator_call list"

definition process_query ::
  "environment \<Rightarrow> query_engine \<Rightarrow> ustr \<Rightarrow> int \<Rightarrow> real \<Rightarrow> (ustr \<times> ustr) list option
     \<Rightarrow> process_outcome" where
  "process_query env self q similarity_top_k similarity_threshold metadata_filters =
     (let query_language = detect_query_language env q;
          (built, calls1) =
             get_query_engine (the_vector_store_manager self) similarity_top_k metadata_filters
      in case built of
           Inl e \<Rightarrow> \<lparr>returned = Inl e, engine = self, calls = calls1\<rparr>
         | Inr None \<Rightarrow>
             \<lparr>returned = Inr (Failure not_available_message), engine = self, calls = calls1\<rparr>
         | Inr (Some qe) \<Rightarrow>
             (case qe q of
                Inl e \<Rightarrow>
                  \<lparr>returned = Inr (error_processing e), engine = self,
                   calls = calls1 @ [Query q]\<rparr>
              | Inr resp \<Rightarrow>
                  (case filter_sources (source_nodes resp) similarity_threshold of
                     Inl e \<Rightarrow>
                       \<lparr>returned = Inr (error_processing e), engine = self,
                        calls = calls1 @ [Query q]\<rparr>
                   | Inr filtered_sources \<Rightarrow>
                       if filtered_sources = [] then
                         \<lparr>returned =
                            Inr (Success
                                   (if query_language = u ''ru'' then no_results_ru
                                    else no_results_en)
                                   0 [] query_language q (now_isoformat env)),
                          engine = self, calls = calls1 @ [Query q]\<rparr>
                       else
                         (let resp2 = resp\<lparr>source_nodes := filtered_sources\<rparr>;
                              conf = calculate_confidence_score resp2;
                              srcs = format_sources filtered_sources;
                              result = Success (response_text resp2) conf srcs query_language q
                                         (now_isoformat env)
                          in \<lparr>returned = Inr result,
                              engine = self\<lparr>query_history := query_history self @ [result]\<rparr>,
                              calls = calls1 @ [Query q]\<rparr>))))"

text \<open>
  Python's \<open>xs[i:]\<close> for an integer \<open>i\<close>: a negative \<open>i\<close> counts from the end and is
  clipped at the start of the list; \<open>-0\<close> is \<open>0\<close>.
\<close>

definition slice_from :: "'a list \<Rightarrow> int \<Rightarrow> 'a list" where
  "slice_from xs i =
     (if i < 0 then drop (nat (max 0 (int (length xs) + i))) xs else drop (nat i) xs)"

definition get_query_history :: "query_engine \<Rightarrow> int \<Rightarrow> query_result list" where
  "get_query_history self limit =
     (if query_history self = [] then [] else slice_from (query_history self) (- limit))"

definition clear_history :: "query_engine \<Rightarrow> query_engine" where
  "clear_history self = self\<lparr>query_history := []\<rparr>"

text \<open>
  The statistics dict. The branch for an empty history builds a dict that has no
  \<open>successful_queries\<close> key, hence the option.
\<close>

record statistics =
  total_queries :: nat
  successful_queries :: "nat option"
  avg_confidence :: real
  language_distribution :: "(ustr \<times> nat) list"
  recent_queries :: nat

text \<open>\<open>lang_dist[lang] = lang_dist.get(lang, 0) + 1\<close> on a dict that keeps insertion order.\<close>

fun count_language :: "ustr \<Rightarrow> (ustr \<times> nat) list \<Rightarrow> (ustr \<times> nat) list" where
  "count_language l [] = [(l, 1)]"
| "count_language l ((k, c) # d) =
     (if k = l then (k, c + 1) # d else (k, c) # count_language l d)"

text \<open>\<open>round(x, 2)\<close> on the idealised value: to the nearest hundredth, ties to even.\<close>

definition round2 :: "real \<Rightarrow> real" where
  "round2 x =
     (let y = x * 100; f = \<lfloor>y\<rfloor>; d = y - of_int f
      in of_int (if d < 1 / 2 then f
                 else if d > 1 / 2 then f + 1
                 else if even f then f else f + 1) / 100)"

definition get_statistics :: "query_engine \<Rightarrow> statistics" where
  "get_statistics self =
     (if query_history self = [] then
        \<lparr>total_queries = 0, successful_queries = None, avg_confidence = 0,
         language_distribution = [], recent_queries = 0\<rparr>
      else
        let successful = filter get_success (query_history self);
            languages = map get_language successful;
            lang_dist = foldl (\<lambda>d l. count_language l d) [] languages;
            confidences = map get_confidence successful;
            avg = (if confidences = [] then 0
                   else sum_list confidences / real (length confidences))
        in \<lparr>total_queries = length (query_history self),
            successful_queries = Some (length successful),
            avg_confidence = round2 avg,
            language_distribution = lang_dist,
            recent_queries =
              length (filter get_success (slice_from (query_history self) (- 24)))\<rparr>)"

section \<open>Sequences of calls and reachable engines\<close>

text \<open>A result that carries at least one source citation.\<close>

fun has_sources :: "query_result \<Rightarrow> bool" where
  "has_sources (Success a c s l q ts) = (s \<noteq> [])"
| "has_sources (Failure e) = False"

fun with_sources :: "py_exception + query_result \<Rightarrow> bool" where
  "with_sources (Inr r) = has_sources r"
| "with_sources (Inl e) = False"

fun failed :: "py_exception + query_result \<Rightarrow> bool" where
  "failed (Inr r) = (\<not> get_success r)"
| "failed (Inl e) = False"

text \<open>
  A match passes the threshold when it carries a defined score that reaches it: the
  filtered match set of a response is \<open>filter (passes t)\<close> of its matches.
\<close>

definition passes :: "real \<Rightarrow> node \<Rightarrow> bool" where
  "passes t n = (case node_score n of ScoreNum s \<Rightarrow> s \<ge> t | _ \<Rightarrow> False)"

text \<open>
  One call of \<open>process_query\<close> as its caller sees it: the arguments, what the outside
  world answers during the call, and the state of the shared manager at that moment.
\<close>

record request =
  req_environment :: environment
  req_manager :: vector_store_manager
  req_query :: ustr
  req_top_k :: int
  req_threshold :: real
  req_filters :: "(ustr \<times> ustr) list option"

fun process_all ::
  "query_engine \<Rightarrow> request list \<Rightarrow> query_engine \<times> (py_exception + query_result) list" where
  "process_all self [] = (self, [])"
| "process_all self (r # rs) =
     (let out = process_query (req_environment r)
                  (self\<lparr>the_vector_store_manager := req_manager r\<rparr>)
                  (req_query r) (req_top_k r) (req_threshold r) (req_filters r);
          rest = process_all (engine out) rs
      in (fst rest, returned out # snd rest))"

text \<open>
  The engines a session can reach: built by the constructor, then changed only by
  \<open>process_query\<close> and \<open>clear_history\<close>, while the manager it shares may change under it.
\<close>

inductive reachable :: "query_engine \<Rightarrow> bool" where
  init: "reachable (init_query_engine m)"
| process: "reachable s \<Longrightarrow> reachable (engine (process_query env s q k t f))"
| clear: "reachable s \<Longrightarrow> reachable (clear_history s)"
| manager: "reachable s \<Longrightarrow> reachable (s\<lparr>the_vector_store_manager := m\<rparr>)"

section \<open>Concrete inputs\<close>

definition refund_query :: ustr where
  "refund_query = u ''What is the policy on refunds?''"

definition vozvrat_query :: ustr where
  "vozvrat_query =
     [1050, 1072, 1082, 1086, 1074, 1072, 32, 1087, 1086, 1083, 1080, 1090, 1080, 1082, 1072, 32,
      1074, 1086, 1079, 1074, 1088, 1072, 1090, 1072, 63]"

definition long_answer :: ustr where
  "long_answer = u ''Refunds are issued within thirty days of the purchase date.''"

definition scored_node :: "real \<Rightarrow> node" where
  "scored_node s =
     \<lparr>node_score = ScoreNum s, node_text = u ''Refund policy, section 2.'',
      node_metadata = Map.empty\<rparr>"

definition unscored_node :: node where
  "unscored_node =
     \<lparr>node_score = ScoreNone, node_text = u ''Refund policy, section 3.'',
      node_metadata = Map.empty\<rparr>"

definition fixed_environment :: "ustr \<Rightarrow> environment" where
  "fixed_environment lang =
     \<lparr>detect = (\<lambda>q. Inr lang), now_isoformat = u ''2024-05-01T12:00:00''\<rparr>"

definition answering :: "response \<Rightarrow> llama_query_engine" where
  "answering resp = (\<lambda>q. Inr resp)"

definition manager_answering :: "response \<Rightarrow> vector_store_manager" where
  "manager_answering resp =
     \<lparr>index = Some \<lparr>as_query_engine = (\<lambda>k f. Inr (answering resp))\<rparr>\<rparr>"

definition manager_raising :: "py_exception \<Rightarrow> vector_store_manager" where
  "manager_raising e = \<lparr>index = Some \<lparr>as_query_engine = (\<lambda>k f. Inl e)\<rparr>\<rparr>"

definition manager_without_index :: vector_store_manager where
  "manager_without_index = \<lparr>index = None\<rparr>"

definition request_of :: "vector_store_manager \<Rightarrow> request" where
  "request_of m =
     \<lparr>req_environment = fixed_environment (u ''en''), req_manager = m,
      req_query = refund_query, req_top_k = 5, req_threshold = 0.7, req_filters = None\<rparr>"

definition sourced_response :: response where
  "sourced_response = \<lparr>response_text = long_answer, source_nodes = [scored_node 0.9]\<rparr>"

definition empty_response :: response where
  "empty_response = \<lparr>response_text = long_answer, source_nodes = []\<rparr>"

definition mixed_response :: response where
  "mixed_response =
     \<lparr>response_text = long_answer,
      source_nodes = [scored_node 0.9, unscored_node, scored_node 0.8]\<rparr>"

definition unscored_response :: response where
  "unscored_response = \<lparr>response_text = long_answer, source_nodes = [unscored_node]\<rparr>"

definition no_results_success :: "ustr \<Rightarrow> ustr \<Rightarrow> query_result" where
  "no_results_success lang q =
     Success (if lang = u ''ru'' then no_results_ru else no_results_en) 0 [] lang q
       (u ''2024-05-01T12:00:00'')"

section \<open>Basic facts\<close>

lemma u_simps [simp]: "u [] = []" "u (c # cs) = of_char c # u cs"
  by (simp_all add: u_def)

lemmas fixture_defs =
  refund_query_def vozvrat_query_def long_answer_def scored_node_def unscored_node_def
  fixed_environment_def manager_answering_def manager_raising_def manager_without_index_def
  request_of_def sourced_response_def empty_response_def mixed_response_def
  unscored_response_def
  no_results_success_def init_query_engine_def

lemmas process_defs =
  process_query_def get_query_engine_def detect_query_language_def Let_def
  format_sources_def calculate_confidence_score_def error_processing_def

lemma format_sources_from_empty: "format_sources_from i ns = [] \<longleftrightarrow> ns = []"
  by (cases ns) simp_all

lemma format_sources_empty: "format_sources ns = [] \<longleftrightarrow> ns = []"
  by (simp add: format_sources_def format_sources_from_empty)

lemma total_queries_length: "total_queries (get_statistics s) = length (query_history s)"
  by (simp add: get_statistics_def Let_def)

lemma get_query_engine_no_query:
  "filter is_query_call (snd (get_query_engine m k f)) = []"
  by (simp add: get_query_engine_def Let_def split: option.splits)

subsection \<open>The threshold filter\<close>

lemma filter_sources_null:
  "n \<in> set ns \<Longrightarrow> node_score n = ScoreNone \<Longrightarrow>
   filter_sources ns t = Inl (PyException type_error_message)"
proof (induction ns)
  case Nil
  then show ?case by simp
next
  case (Cons a ns)
  show ?case
  proof (cases "node_score a")
    case ScoreNone
    then show ?thesis by simp
  next
    case NoScoreAttr
    with Cons show ?thesis by auto
  next
    case (ScoreNum s)
    with Cons show ?thesis by auto
  qed
qed

lemma filter_sources_without_null:
  "ScoreNone \<notin> node_score ` set ns \<Longrightarrow> filter_sources ns t = Inr (filter (passes t) ns)"
  by (induction ns) (auto simp: passes_def split: score_attr.splits)

lemma filter_sources_kept:
  "filter_sources ns t = Inr kept \<Longrightarrow>
   kept = filter (passes t) ns \<and> ScoreNone \<notin> node_score ` set ns"
  by (induction ns arbitrary: kept) (auto simp: passes_def split: score_attr.splits sum.splits)

lemma filter_sources_idempotent:
  assumes "filter_sources ns t = Inr kept"
  shows "filter_sources kept t = Inr kept"
proof -
  from assms have k: "kept = filter (passes t) ns" and nn: "ScoreNone \<notin> node_score ` set ns"
    using filter_sources_kept by blast+
  from nn k have "ScoreNone \<notin> node_score ` set kept" by auto
  then have "filter_sources kept t = Inr (filter (passes t) kept)"
    by (rule filter_sources_without_null)
  with k show ?thesis by simp
qed

subsection \<open>The confidence score on scored matches\<close>

lemma calculate_confidence_score_scored:
  assumes "truthy_scores (source_nodes r) \<noteq> []"
  shows "calculate_confidence_score r =
           min 100
             ((if length (source_nodes r) \<ge> 3 then 11 / 10 else 1)
              * ((if length (response_text r) < 50 then 8 / 10 else 1)
                 * min 100 (max 0 (sum_list (truthy_scores (source_nodes r))
                                     / real (length (truthy_scores (source_nodes r))) * 100))))"
proof -
  from assms have "source_nodes r \<noteq> []" by auto
  with assms show ?thesis
    by (simp add: calculate_confidence_score_def Let_def mult.commute)
qed

lemma zero_scores_left_out_of_mean:
  "calculate_confidence_score
     \<lparr>response_text = long_answer, source_nodes = [scored_node 0, scored_node 0.8]\<rparr> = 80"
  by (simp add: calculate_confidence_score_def scored_node_def long_answer_def)

subsection \<open>What one call does to the history\<close>

lemma process_query_history:
  "query_history (engine (process_query env self q k t f)) =
     (if with_sources (returned (process_query env self q k t f))
      then query_history self @ [projr (returned (process_query env self q k t f))]
      else query_history self)"
  by (auto simp add: process_query_def Let_def format_sources_empty error_processing_def
       split: prod.splits sum.splits option.splits)

lemma process_query_stored_success:
  "with_sources (returned (process_query env self q k t f)) \<Longrightarrow>
   get_success (projr (returned (process_query env self q k t f)))"
  by (auto simp add: process_query_def Let_def format_sources_empty error_processing_def
       split: prod.splits sum.splits option.splits)

lemma process_query_returns:
  "fst (get_query_engine (the_vector_store_manager self) k f) = Inr b \<Longrightarrow>
   \<exists>r. returned (process_query env self q k t f) = Inr r"
  by (auto simp add: process_query_def Let_def split: prod.splits sum.splits option.splits)

lemma process_all_length:
  "length (query_history (fst (process_all s reqs))) =
     length (query_history s) + length (filter with_sources (snd (process_all s reqs)))"
proof (induction reqs arbitrary: s)
  case Nil
  show ?case by simp
next
  case (Cons r rs)
  let ?out = "process_query (req_environment r) (s\<lparr>the_vector_store_manager := req_manager r\<rparr>)
                (req_query r) (req_top_k r) (req_threshold r) (req_filters r)"
  have "length (query_history (engine ?out)) =
          length (query_history s) + (if with_sources (returned ?out) then 1 else 0)"
    by (simp add: process_query_history)
  with Cons.IH [of "engine ?out"] show ?case
    by (simp add: Let_def)
qed

lemma reachable_successes: "reachable s \<Longrightarrow> list_all get_success (query_history s)"
proof (induction rule: reachable.induct)
  case (init m)
  show ?case by (simp add: init_query_engine_def)
next
  case (process s env q k t f)
  then show ?case
    using process_query_stored_success [of env s q k t f]
    by (simp add: process_query_history)
next
  case (clear s)
  show ?case by (simp add: clear_history_def)
next
  case (manager s m)
  then show ?case by simp
qed

lemma successes_counted:
  "list_all get_success (query_history s) \<Longrightarrow> query_history s \<noteq> [] \<Longrightarrow>
   successful_queries (get_statistics s) = Some (total_queries (get_statistics s))"
  by (simp add: get_statistics_def Let_def list_all_iff)

lemma get_query_history_positive:
  "0 < limit \<Longrightarrow>
   get_query_history self limit =
     drop (length (query_history self) - nat limit) (query_history self)"
  by (auto simp add: get_query_history_def slice_from_def nat_diff_distrib' max_def
      intro!: arg_cong2 [where f = drop])

section \<open>The confidence scorer\<close>

text \<open>
  Claim C1 (what the code does where the claim expects a base confidence of 50).
  The matches are not empty, none of them carries a score, the answer has 59 characters
  and there is one source, so neither the length penalty nor the count boost applies.
  \<open>calculate_confidence_score\<close> leaves through \<open>return 0.5\<close>, before the scaling to
  0..100: the result is one half, not 50.
\<close>

theorem unscored_matches_score_one_half:
  "calculate_confidence_score
     \<lparr>response_text = long_answer, source_nodes = [unscored_node]\<rparr> = 1 / 2
   \<and> length long_answer = 59
   \<and> calculate_confidence_score
       \<lparr>response_text = long_answer, source_nodes = [unscored_node]\<rparr> \<noteq> 50"
  by (simp add: calculate_confidence_score_def unscored_node_def long_answer_def)

text \<open>
  Claim C8. Whatever the answer text and the matches are, the confidence lies between
  0 and 100, and it is exactly 0 when the match sequence is empty.
\<close>

theorem confidence_within_bounds:
  "0 \<le> calculate_confidence_score r
   \<and> calculate_confidence_score r \<le> 100
   \<and> calculate_confidence_score (r\<lparr>source_nodes := []\<rparr>) = 0"
proof -
  have lower: "0 \<le> calculate_confidence_score r"
    by (simp add: calculate_confidence_score_def Let_def)
  have upper: "calculate_confidence_score r \<le> 100"
    by (simp add: calculate_confidence_score_def Let_def)
  have none: "calculate_confidence_score (r\<lparr>source_nodes := []\<rparr>) = 0"
    by (simp add: calculate_confidence_score_def)
  from lower upper none show ?thesis by simp
qed

section \<open>The threshold filter inside process_query\<close>

text \<open>
  Claim C4 (what the code does on a match whose score is \<open>None\<close>). The filter does not
  return the matches that reach the threshold: the comparison of \<open>None\<close> with the
  threshold raises TypeError and no list is produced, although the scored match beside
  it reaches the threshold. On sequences without such a match the filter keeps exactly the
  matches that pass, in order, and is idempotent (\<open>filter_sources_without_null\<close>,
  \<open>filter_sources_idempotent\<close>).
\<close>

theorem filter_raises_on_null_score:
  "filter_sources [scored_node 0.9, unscored_node] 0.7 = Inl (PyException type_error_message)
   \<and> filter_sources [scored_node 0.9] 0.7 = Inr [scored_node 0.9]"
  by (simp add: scored_node_def unscored_node_def)

section \<open>process_query\<close>

text \<open>
  Claim C2, as the code has it. A call appends its result to the history exactly when the
  result is a Success that carries sources. The no-results Success (empty sources), a
  Failure and a call that an exception leaves all keep the history as it was.
\<close>

theorem history_appended_only_with_sources:
  "query_history (engine (process_query env self q k t f)) =
     (case returned (process_query env self q k t f) of
        Inl e \<Rightarrow> query_history self
      | Inr r \<Rightarrow> if has_sources r then query_history self @ [r] else query_history self)"
  by (auto simp add: process_query_def Let_def format_sources_empty error_processing_def
       split: prod.splits sum.splits option.splits)

text \<open>
  Claim C2 as stated fails: the collaborator answers with no matches, the call returns
  the no-results Success, and the history is still empty afterwards.
\<close>

theorem no_results_success_not_persisted:
  "returned (process_query (fixed_environment (u ''en''))
               (init_query_engine (manager_answering empty_response))
               refund_query 5 0.7 None)
     = Inr (no_results_success (u ''en'') refund_query)
   \<and> get_success (no_results_success (u ''en'') refund_query)
   \<and> query_history (engine (process_query (fixed_environment (u ''en''))
                               (init_query_engine (manager_answering empty_response))
                               refund_query 5 0.7 None)) = []"
  by (simp add: process_defs fixture_defs answering_def)

text \<open>
  Claim C3 (what the code does when building the query engine raises). The call of
  \<open>get_query_engine\<close> stands before the \<open>try\<close> block, so the exception leaves
  \<open>process_query\<close>: no Success and no Failure is returned. Once the engine is built,
  every outcome is a result (\<open>process_query_returns\<close>).
\<close>

theorem construction_error_propagates:
  "returned (process_query (fixed_environment (u ''en''))
               (init_query_engine (manager_raising (PyException (u ''no API key''))))
               refund_query 5 0.7 None)
     = Inl (PyException (u ''no API key''))"
  by (simp add: process_defs fixture_defs)

text \<open>
  The no-results branch. When the engine is available, the query returns a response and
  the threshold filter runs to its end keeping nothing, the call returns a Success with
  confidence 0, no sources and the canned answer in the detected language (Russian for
  "ru", English otherwise); the collaborator's \<open>query\<close> has been invoked exactly once
  and the engine is unchanged.
\<close>

lemma no_results_when_filter_keeps_nothing:
  assumes "get_query_engine (the_vector_store_manager self) k f = (Inr (Some qe), cs)"
    and "qe q = Inr resp"
    and "filter_sources (source_nodes resp) t = Inr []"
  shows "returned (process_query env self q k t f)
           = Inr (Success (if detect_query_language env q = u ''ru'' then no_results_ru
                           else no_results_en)
                    0 [] (detect_query_language env q) q (now_isoformat env))
         \<and> length (filter is_query_call (calls (process_query env self q k t f))) = 1
         \<and> engine (process_query env self q k t f) = self"
  using assms get_query_engine_no_query [of "the_vector_store_manager self" k f]
  by (simp add: process_query_def Let_def)

lemma no_results_when_filter_keeps_nothing_example:
  "get_query_engine
     (the_vector_store_manager (init_query_engine (manager_answering empty_response))) 5 None
     = (Inr (Some (answering empty_response)), [AsQueryEngine 5 None])
   \<and> answering empty_response refund_query = Inr empty_response
   \<and> answering empty_response vozvrat_query = Inr empty_response
   \<and> filter_sources (source_nodes empty_response) 0.7 = Inr []
   \<and> returned (process_query (fixed_environment (u ''en''))
                 (init_query_engine (manager_answering empty_response))
                 refund_query 5 0.7 None)
       = Inr (Success no_results_en 0 [] (u ''en'') refund_query (u ''2024-05-01T12:00:00''))
   \<and> returned (process_query (fixed_environment (u ''ru''))
                 (init_query_engine (manager_answering empty_response))
                 vozvrat_query 5 0.7 None)
       = Inr (Success no_results_ru 0 [] (u ''ru'') vozvrat_query (u ''2024-05-01T12:00:00''))
   \<and> length (filter is_query_call
        (calls (process_query (fixed_environment (u ''en''))
                  (init_query_engine (manager_answering empty_response))
                  refund_query 5 0.7 None))) = 1"
proof -
  let ?self = "init_query_engine (manager_answering empty_response)"
  have h1: "get_query_engine (the_vector_store_manager ?self) 5 None
              = (Inr (Some (answering empty_response)), [AsQueryEngine 5 None])"
    by (simp add: get_query_engine_def init_query_engine_def manager_answering_def)
  have h2: "answering empty_response refund_query = Inr empty_response"
    by (simp add: answering_def)
  have h2': "answering empty_response vozvrat_query = Inr empty_response"
    by (simp add: answering_def)
  have h3: "filter_sources (source_nodes empty_response) 0.7 = Inr []"
    by (simp add: empty_response_def)
  have en: "detect_query_language (fixed_environment (u ''en'')) refund_query = u ''en''"
    by (simp add: detect_query_language_def fixed_environment_def)
  have ru: "detect_query_language (fixed_environment (u ''ru'')) vozvrat_query = u ''ru''"
    by (simp add: detect_query_language_def fixed_environment_def)
  note a = no_results_when_filter_keeps_nothing [OF h1 h2 h3, of "fixed_environment (u ''en'')"]
  note b = no_results_when_filter_keeps_nothing [OF h1 h2' h3, of "fixed_environment (u ''ru'')"]
  from a b h1 h2 h2' h3 show ?thesis
    unfolding en ru by (simp add: fixed_environment_def)
qed

text \<open>
  Claim C5 (what the code does when the only match has a \<open>None\<close> score). No match of the
  response has a defined score that reaches the threshold, so the filtered match set is
  empty; yet the call does not return the no-results Success with confidence 0 and the
  canned English answer: the comparison of \<open>None\<close> with the threshold raises and the call
  returns a Failure. Where the filter runs to its end and keeps nothing, the call does
  return the canned Success after a single \<open>query\<close>
  (\<open>no_results_when_filter_keeps_nothing\<close>).
\<close>

theorem null_score_blocks_no_results_answer:
  "filter (passes 0.7) (source_nodes unscored_response) = []
   \<and> returned (process_query (fixed_environment (u ''en''))
                 (init_query_engine (manager_answering unscored_response))
                 refund_query 5 0.7 None)
       = Inr (Failure (u ''Error processing query: '' @ type_error_message))
   \<and> returned (process_query (fixed_environment (u ''en''))
                 (init_query_engine (manager_answering unscored_response))
                 refund_query 5 0.7 None)
       \<noteq> Inr (Success no_results_en 0 [] (u ''en'') refund_query (u ''2024-05-01T12:00:00''))"
  by (simp add: process_defs fixture_defs answering_def passes_def)

text \<open>
  Claim C10. When the response holds a match whose score is \<open>None\<close>, the match is not
  dropped: the comparison raises, the handler turns the error into a Failure for the
  whole query, and nothing is added to the history.
\<close>

theorem null_score_fails_whole_query:
  assumes "get_query_engine (the_vector_store_manager self) k f = (Inr (Some qe), cs)"
    and "qe q = Inr resp"
    and "n \<in> set (source_nodes resp)"
    and "node_score n = ScoreNone"
  shows "returned (process_query env self q k t f)
           = Inr (Failure (u ''Error processing query: '' @ type_error_message))
         \<and> engine (process_query env self q k t f) = self"
  using assms(1,2) filter_sources_null [OF assms(3,4), of t]
  by (simp add: process_query_def Let_def error_processing_def del: u_simps)

theorem null_score_fails_whole_query_witness:
  "get_query_engine
     (the_vector_store_manager (init_query_engine (manager_answering mixed_response))) 5 None
     = (Inr (Some (answering mixed_response)), [AsQueryEngine 5 None])
   \<and> answering mixed_response refund_query = Inr mixed_response
   \<and> unscored_node \<in> set (source_nodes mixed_response)
   \<and> node_score unscored_node = ScoreNone
   \<and> returned (process_query (fixed_environment (u ''en''))
                 (init_query_engine (manager_answering mixed_response))
                 refund_query 5 0.7 None)
       = Inr (Failure (u ''Error processing query: '' @ type_error_message))
   \<and> query_history (engine (process_query (fixed_environment (u ''en''))
                 (init_query_engine (manager_answering mixed_response))
                 refund_query 5 0.7 None)) = []"
proof -
  let ?self = "init_query_engine (manager_answering mixed_response)"
  have h1: "get_query_engine (the_vector_store_manager ?self) 5 None
              = (Inr (Some (answering mixed_response)), [AsQueryEngine 5 None])"
    by (simp add: get_query_engine_def init_query_engine_def manager_answering_def)
  have h2: "answering mixed_response refund_query = Inr mixed_response"
    by (simp add: answering_def)
  have h3: "unscored_node \<in> set (source_nodes mixed_response)"
    by (simp add: mixed_response_def)
  have h4: "node_score unscored_node = ScoreNone"
    by (simp add: unscored_node_def)
  have h5: "query_history ?self = []"
    by (simp add: init_query_engine_def)
  from null_score_fails_whole_query [OF h1 h2 h3 h4, of "fixed_environment (u ''en'')" "0.7"]
    h1 h2 h3 h4 h5
  show ?thesis by simp
qed

text \<open>
  Claim C7, as the code has it. The prompt selector returns the Russian template for
  "ru" and the English template for every other code, but \<open>process_query\<close> never passes
  a template on: whatever language is detected, the collaborator receives the top-k value
  with the converted filters when the engine is built, and then the query text alone.
\<close>

theorem prompt_selected_but_not_supplied:
  "get_language_prompt lang = (if lang = u ''ru'' then prompt_ru else prompt_en)
   \<and> calls (process_query env self q k t f) =
       snd (get_query_engine (the_vector_store_manager self) k f)
       @ (case fst (get_query_engine (the_vector_store_manager self) k f) of
            Inr (Some qe) \<Rightarrow> [Query q]
          | _ \<Rightarrow> [])"
proof -
  have selection: "get_language_prompt lang = (if lang = u ''ru'' then prompt_ru else prompt_en)"
    by (simp add: get_language_prompt_def)
  have supplied: "calls (process_query env self q k t f) =
       snd (get_query_engine (the_vector_store_manager self) k f)
       @ (case fst (get_query_engine (the_vector_store_manager self) k f) of
            Inr (Some qe) \<Rightarrow> [Query q]
          | _ \<Rightarrow> [])"
    by (simp add: process_query_def Let_def split: prod.splits sum.splits option.splits)
  from selection supplied show ?thesis by simp
qed

text \<open>
  Claim C7 as stated fails: a Russian query is detected as "ru", the selected template is
  the Russian one, and the collaborator is given only the arguments of
  \<open>as_query_engine\<close> and the query text, which is not the template.
\<close>

theorem russian_prompt_never_supplied:
  "detect_query_language (fixed_environment (u ''ru'')) vozvrat_query = u ''ru''
   \<and> get_language_prompt (u ''ru'') = prompt_ru
   \<and> calls (process_query (fixed_environment (u ''ru''))
              (init_query_engine (manager_answering sourced_response))
              vozvrat_query 5 0.7 None)
       = [AsQueryEngine 5 None, Query vozvrat_query]
   \<and> vozvrat_query \<noteq> prompt_ru"
  by (simp add: process_defs fixture_defs answering_def get_language_prompt_def prompt_ru_def)

section \<open>The history\<close>

text \<open>
  Claim C6 (what the code does for a limit of 0). \<open>query_history[-0:]\<close> is
  \<open>query_history[0:]\<close>, the whole list: after one stored query,
  \<open>get_query_history(0)\<close> returns that one entry, not the empty sequence. For a positive
  limit the result is the last \<open>min(limit, length)\<close> entries in order
  (\<open>get_query_history_positive\<close>).
\<close>

theorem limit_zero_returns_whole_history:
  "length (query_history (engine (process_query (fixed_environment (u ''en''))
             (init_query_engine (manager_answering sourced_response))
             refund_query 5 0.7 None))) = 1
   \<and> get_query_history (engine (process_query (fixed_environment (u ''en''))
             (init_query_engine (manager_answering sourced_response))
             refund_query 5 0.7 None)) 0
       = query_history (engine (process_query (fixed_environment (u ''en''))
             (init_query_engine (manager_answering sourced_response))
             refund_query 5 0.7 None))
   \<and> get_query_history (engine (process_query (fixed_environment (u ''en''))
             (init_query_engine (manager_answering sourced_response))
             refund_query 5 0.7 None)) 0 \<noteq> []"
  by (simp add: get_query_history_def slice_from_def process_defs fixture_defs answering_def)

text \<open>
  Claim C9, as the code has it. In every reachable state every stored entry is a Success,
  so on a non-empty history the statistics report as many successful queries as total
  queries; four calls of which three return a Success with sources and one fails raise
  the total by 3 (a no-results Success is not stored and does not count); after
  \<open>clear_history\<close> the total is 0.
\<close>

theorem history_holds_successes:
  assumes "reachable s"
  shows "list_all get_success (query_history s)
    \<and> (query_history s \<noteq> [] \<longrightarrow>
         successful_queries (get_statistics s) = Some (total_queries (get_statistics s)))
    \<and> (length reqs = 4
         \<and> length (filter with_sources (snd (process_all s reqs))) = 3
         \<and> length (filter failed (snd (process_all s reqs))) = 1 \<longrightarrow>
         total_queries (get_statistics (fst (process_all s reqs)))
           = total_queries (get_statistics s) + 3)
    \<and> total_queries (get_statistics (clear_history s)) = 0"
proof -
  have stored: "list_all get_success (query_history s)"
    using assms by (rule reachable_successes)
  have counted: "query_history s \<noteq> [] \<longrightarrow>
         successful_queries (get_statistics s) = Some (total_queries (get_statistics s))"
    using stored successes_counted by blast
  have grown: "total_queries (get_statistics (fst (process_all s reqs)))
           = total_queries (get_statistics s)
             + length (filter with_sources (snd (process_all s reqs)))"
    by (simp add: total_queries_length process_all_length)
  have cleared: "total_queries (get_statistics (clear_history s)) = 0"
    by (simp add: total_queries_length clear_history_def)
  from stored counted grown cleared show ?thesis by simp
qed

theorem history_holds_successes_witness:
  "reachable (init_query_engine manager_without_index)
   \<and> reachable (engine (process_query (fixed_environment (u ''en''))
                          (init_query_engine (manager_answering sourced_response))
                          refund_query 5 0.7 None))
   \<and> query_history (engine (process_query (fixed_environment (u ''en''))
                          (init_query_engine (manager_answering sourced_response))
                          refund_query 5 0.7 None)) \<noteq> []
   \<and> successful_queries (get_statistics (engine (process_query (fixed_environment (u ''en''))
                          (init_query_engine (manager_answering sourced_response))
                          refund_query 5 0.7 None))) = Some 1
   \<and> length (filter with_sources (snd (process_all (init_query_engine manager_without_index)
        [request_of (manager_answering sourced_response),
         request_of (manager_answering sourced_response),
         request_of manager_without_index,
         request_of (manager_answering sourced_response)]))) = 3
   \<and> length (filter failed (snd (process_all (init_query_engine manager_without_index)
        [request_of (manager_answering sourced_response),
         request_of (manager_answering sourced_response),
         request_of manager_without_index,
         request_of (manager_answering sourced_response)]))) = 1
   \<and> total_queries (get_statistics (fst (process_all (init_query_engine manager_without_index)
        [request_of (manager_answering sourced_response),
         request_of (manager_answering sourced_response),
         request_of manager_without_index,
         request_of (manager_answering sourced_response)]))) = 3
   \<and> total_queries (get_statistics (clear_history (init_query_engine manager_without_index))) = 0"
proof -
  let ?fresh = "init_query_engine manager_without_index"
  let ?once = "engine (process_query (fixed_environment (u ''en''))
                 (init_query_engine (manager_answering sourced_response))
                 refund_query 5 0.7 None)"
  let ?reqs = "[request_of (manager_answering sourced_response),
                request_of (manager_answering sourced_response),
                request_of manager_without_index,
                request_of (manager_answering sourced_response)]"
  have r0: "reachable ?fresh"
    by (rule reachable.init)
  have r1: "reachable ?once"
    by (rule reachable.process [OF reachable.init])
  have nonempty: "query_history ?once \<noteq> []"
    by (simp add: process_defs fixture_defs answering_def)
  have one: "total_queries (get_statistics ?once) = 1"
    by (simp add: total_queries_length process_defs fixture_defs answering_def)
  have three: "length (filter with_sources (snd (process_all ?fresh ?reqs))) = 3"
    by (simp add: process_defs fixture_defs answering_def)
  have fail: "length (filter failed (snd (process_all ?fresh ?reqs))) = 1"
    by (simp add: process_defs fixture_defs answering_def)
  have zero: "total_queries (get_statistics ?fresh) = 0"
    by (simp add: total_queries_length init_query_engine_def)
  note a = history_holds_successes [OF r0, of ?reqs]
  note b = history_holds_successes [OF r1, of "[]"]
  from a three fail zero
  have total: "total_queries (get_statistics (fst (process_all ?fresh ?reqs))) = 3"
    by simp
  from b nonempty one
  have succ: "successful_queries (get_statistics ?once) = Some 1"
    by simp
  from a have clr: "total_queries (get_statistics (clear_history ?fresh)) = 0"
    by simp
  from r0 r1 nonempty succ three fail total clr show ?thesis
    by simp
qed

text \<open>
  Claim C9 as stated fails: three calls return the no-results Success, a fourth fails
  for want of an index, and the statistics report a total of 0, not 3.
\<close>

theorem three_successes_counted_zero:
  "snd (process_all (init_query_engine manager_without_index)
         [request_of (manager_answering empty_response),
          request_of (manager_answering empty_response),
          request_of (manager_answering empty_response),
          request_of manager_without_index])
     = [Inr (no_results_success (u ''en'') refund_query),
        Inr (no_results_success (u ''en'') refund_query),
        Inr (no_results_success (u ''en'') refund_query),
        Inr (Failure not_available_message)]
   \<and> get_success (no_results_success (u ''en'') refund_query)
   \<and> total_queries (get_statistics (fst (process_all (init_query_engine manager_without_index)
         [request_of (manager_answering empty_response),
          request_of (manager_answering empty_response),
          request_of (manager_answering empty_response),
          request_of manager_without_index]))) = 0"
  by (simp add: process_defs fixture_defs answering_def get_statistics_def)

end
